theory Spec2Isabelle
  imports Complex_Main "HOL-Library.AList"
begin

section \<open>The version history engine of the autosaver (history manager)\<close>

text \<open>
  The module keeps, per project directory, two sub-directories \<^verbatim>\<open>history/\<close> and
  \<^verbatim>\<open>deleted/\<close> and a JSON document \<^verbatim>\<open>index.json\<close>. Every function of the module
  is embedded as a function on an explicit state: the project directory it is called on
  or, for the two functions that list files with \<^verbatim>\<open>glob\<close>, the project directories on
  disk. What the Python reads from its surroundings (the clock, the formatted time stamp,
  the bytes the host writes, the gzip encoder, the size of a directory) is a parameter of
  the embedded function.

  Scope of the model:
  \<^item> a project directory that exists is writable; \<^verbatim>\<open>history/\<close> and \<^verbatim>\<open>deleted/\<close> may
    be absent, and when present hold regular files only;
  \<^item> a directory is a list of (name, file) pairs in the order the operating system
    lists it; a new name goes to the end of the listing;
  \<^item> an operation on an existing file succeeds (no permission or disk failure); an
    operation on a missing file raises, as in Python;
  \<^item> names are compared as on a POSIX system (case sensitive), and the basename given to
    an operation has no path separator; it may be empty, \<^verbatim>\<open>.\<close> or \<^verbatim>\<open>..\<close>, and the
    path built from it is then a directory;
  \<^item> time is counted in whole units of the clock (\<^verbatim>\<open>time.time()\<close> and the
    modification times are integers);
  \<^item> the strings of the index are text that UTF-8 encodes, so that \<^verbatim>\<open>json.dump\<close> writes
    the document, and \<^verbatim>\<open>json.load\<close> applied to what \<^verbatim>\<open>json.dump\<close> wrote gives the same
    JSON value: the index file is either a JSON value or something \<^verbatim>\<open>json.load\<close>
    rejects.
\<close>

subsection \<open>JSON values and the Python operations used on them\<close>

datatype json =
    JNull
  | JBool bool
  | JNum rat
  | JStr string
  | JArr "json list"
  | JObj "(string \<times> json) list"

datatype py_error = KeyError | AttributeError | TypeError | FileNotFoundError | OSError

text \<open>\<^verbatim>\<open>d.get(k, default)\<close>: only a dict has the method.\<close>

fun dict_get :: "json \<Rightarrow> string \<Rightarrow> json \<Rightarrow> py_error + json" where
  "dict_get (JObj kvs) k dflt = Inr (case map_of kvs k of None \<Rightarrow> dflt | Some v \<Rightarrow> v)"
| "dict_get _ k dflt = Inl AttributeError"

text \<open>\<^verbatim>\<open>d[k]\<close> with a string key.\<close>

fun getitem :: "json \<Rightarrow> string \<Rightarrow> py_error + json" where
  "getitem (JObj kvs) k = (case map_of kvs k of None \<Rightarrow> Inl KeyError | Some v \<Rightarrow> Inr v)"
| "getitem _ k = Inl TypeError"

text \<open>\<^verbatim>\<open>d[k] = v\<close> with a string key: an existing key keeps its place.\<close>

fun setitem :: "json \<Rightarrow> string \<Rightarrow> json \<Rightarrow> py_error + json" where
  "setitem (JObj kvs) k v = Inr (JObj (AList.update k v kvs))"
| "setitem _ k v = Inl TypeError"

text \<open>What a \<^verbatim>\<open>for\<close> loop iterates over.\<close>

fun py_iter :: "json \<Rightarrow> py_error + json list" where
  "py_iter (JArr xs) = Inr xs"
| "py_iter (JObj kvs) = Inr (map (\<lambda>kv. JStr (fst kv)) kvs)"
| "py_iter (JStr s) = Inr (map (\<lambda>c. JStr [c]) s)"
| "py_iter _ = Inl TypeError"

text \<open>\<^verbatim>\<open>xs.append(x)\<close>: only a list has the method.\<close>

fun py_append :: "json \<Rightarrow> json \<Rightarrow> py_error + json" where
  "py_append (JArr xs) x = Inr (JArr (xs @ [x]))"
| "py_append _ x = Inl AttributeError"

text \<open>\<^verbatim>\<open>s.endswith(suf)\<close>.\<close>

definition endswith :: "string \<Rightarrow> string \<Rightarrow> bool" where
  "endswith s suf = (length suf \<le> length s \<and> drop (length s - length suf) s = suf)"

subsection \<open>The project directory\<close>

record fobj =
  content :: string
  mtime :: int

type_synonym dir = "(string \<times> fobj) list"

datatype index_file = Unparseable | Parsed json

record project =
  history :: "dir option"
  deleted :: "dir option"
  index_json :: "index_file option"

text \<open>The paths the module is called with: a file of one of the two sub-directories, or a
  file outside the project, given by its basename and its size when it exists.\<close>

datatype fpath = InHistory string | InDeleted string | Outside string "nat option"

fun basename :: "fpath \<Rightarrow> string" where
  "basename (InHistory n) = n"
| "basename (InDeleted n) = n"
| "basename (Outside n sz) = n"

definition dir_lookup :: "dir option \<Rightarrow> string \<Rightarrow> fobj option" where
  "dir_lookup d n = (case d of None \<Rightarrow> None | Some fs \<Rightarrow> map_of fs n)"

text \<open>\<^verbatim>\<open>os.path.getsize\<close>, with \<open>None\<close> where \<^verbatim>\<open>os.path.exists\<close> is false.\<close>

fun getsize :: "project \<Rightarrow> fpath \<Rightarrow> nat option" where
  "getsize s (InHistory n) = map_option (\<lambda>f. length (content f)) (dir_lookup (history s) n)"
| "getsize s (InDeleted n) = map_option (\<lambda>f. length (content f)) (dir_lookup (deleted s) n)"
| "getsize s (Outside n sz) = sz"

text \<open>\<^verbatim>\<open>os.path.exists(os.path.join(d, b))\<close> for a sub-directory \<open>d\<close>: a file named
  \<open>b\<close> is there, or \<open>b\<close> is empty, \<^verbatim>\<open>.\<close> or \<^verbatim>\<open>..\<close> and the path is a directory
  (\<open>d\<close> itself or its parent), which is there when \<open>d\<close> is.\<close>

definition path_exists :: "dir option \<Rightarrow> string \<Rightarrow> bool" where
  "path_exists d b =
     (dir_lookup d b \<noteq> None \<or> (d \<noteq> None \<and> (b = [] \<or> b = ''.'' \<or> b = ''..'')))"

text \<open>\<^verbatim>\<open>os.path.getsize(os.path.join(d, b))\<close> for a path that exists; \<open>dir_size\<close> is the
  size the file system reports for a directory.\<close>

definition path_size :: "nat \<Rightarrow> dir option \<Rightarrow> string \<Rightarrow> nat option" where
  "path_size dir_size d b =
     (case dir_lookup d b of
        Some f \<Rightarrow> Some (length (content f))
      | None \<Rightarrow> if path_exists d b then Some dir_size else None)"

text \<open>\<^verbatim>\<open>_ensure_dir\<close>: \<^verbatim>\<open>mkdir(parents=True, exist_ok=True)\<close>; \<open>ensured\<close> is the listing
  of the directory that is there afterwards.\<close>

definition ensure_dir :: "dir option \<Rightarrow> dir option" where
  "ensure_dir d = (case d of None \<Rightarrow> Some [] | Some fs \<Rightarrow> Some fs)"

definition ensured :: "dir option \<Rightarrow> dir" where
  "ensured d = (case d of None \<Rightarrow> [] | Some fs \<Rightarrow> fs)"

text \<open>\<^verbatim>\<open>glob\<close> never matches a name that starts with a dot with a pattern that does not.\<close>

definition hidden :: "string \<Rightarrow> bool" where
  "hidden n = (case n of [] \<Rightarrow> False | c # cs \<Rightarrow> c = CHR ''.'')"

text \<open>The names of one directory that the last component of a \<^verbatim>\<open>glob\<close> pattern matches,
  for the components \<^verbatim>\<open>*\<close> and \<^verbatim>\<open>*.blend\<close>, in listing order; an absent directory
  matches nothing. Which directories a pattern lists depends on the directory part of the
  pattern as well, see \<open>glob_paths\<close> below.\<close>

definition glob_all :: "dir option \<Rightarrow> string list" where
  "glob_all d = (case d of None \<Rightarrow> [] | Some fs \<Rightarrow> filter (\<lambda>n. \<not> hidden n) (map fst fs))"

definition glob_blend :: "dir option \<Rightarrow> string list" where
  "glob_blend d = (case d of None \<Rightarrow> []
     | Some fs \<Rightarrow> filter (\<lambda>n. \<not> hidden n \<and> endswith n ''.blend'') (map fst fs))"

text \<open>\<^verbatim>\<open>os.path.getmtime\<close>.\<close>

definition getmtime :: "dir option \<Rightarrow> string \<Rightarrow> py_error + int" where
  "getmtime d n = (case dir_lookup d n of None \<Rightarrow> Inl FileNotFoundError | Some f \<Rightarrow> Inr (mtime f))"

subsection \<open>The index\<close>

definition empty_index :: json where
  "empty_index = JObj [(''versions'', JArr [])]"

text \<open>\<^verbatim>\<open>load_index\<close>: a missing or unreadable index is the empty one.\<close>

definition load_index :: "project \<Rightarrow> json" where
  "load_index s = (case index_json s of
       None \<Rightarrow> empty_index
     | Some Unparseable \<Rightarrow> empty_index
     | Some (Parsed d) \<Rightarrow> d)"

text \<open>\<^verbatim>\<open>save_index\<close>: the whole document is rewritten.\<close>

definition save_index :: "project \<Rightarrow> json \<Rightarrow> project" where
  "save_index s data = s\<lparr>index_json := Some (Parsed data)\<rparr>"

text \<open>\<^verbatim>\<open>round(size / (1024 * 1024), 2)\<close>, as hundredths: the quotient by a power of two is
  exact, and \<^verbatim>\<open>round\<close> rounds a tie to the even neighbour.\<close>

definition size_MB :: "nat \<Rightarrow> rat" where
  "size_MB n =
     (let q = (100 * int n) div 1048576; r = (100 * int n) mod 1048576;
          h = (if 2 * r < 1048576 then q else if 2 * r > 1048576 then q + 1
               else if even q then q else q + 1)
      in of_int h / 100)"

definition new_entry :: "string \<Rightarrow> string \<Rightarrow> nat option \<Rightarrow> string \<Rightarrow> bool \<Rightarrow> json" where
  "new_entry file stamp sz note compressed = JObj
     [(''file'', JStr file),
      (''timestamp'', JStr stamp),
      (''size_MB'', (case sz of None \<Rightarrow> JNull | Some n \<Rightarrow> JNum (size_MB n))),
      (''note'', JStr note),
      (''status'', JStr ''active''),
      (''compressed'', JBool compressed)]"

text \<open>\<^verbatim>\<open>register_version\<close>; \<open>stamp\<close> is what \<^verbatim>\<open>time.strftime\<close> returns. The entry is
  appended to the list stored under \<^verbatim>\<open>data["versions"]\<close>.\<close>

definition register_version ::
  "project \<Rightarrow> fpath \<Rightarrow> string \<Rightarrow> bool \<Rightarrow> string \<Rightarrow> (py_error + json) \<times> project" where
  "register_version s filename note compressed stamp =
     (let data = load_index s;
          entry = new_entry (basename filename) stamp (getsize s filename) note compressed
      in case getitem data ''versions'' of
           Inl e \<Rightarrow> (Inl e, s)
         | Inr vs \<Rightarrow>
             (case py_append vs entry of
                Inl e \<Rightarrow> (Inl e, s)
              | Inr vs' \<Rightarrow>
                  (case setitem data ''versions'' vs' of
                     Inl e \<Rightarrow> (Inl e, s)
                   | Inr data' \<Rightarrow> (Inr entry, save_index s data'))))"

text \<open>The list comprehension of \<^verbatim>\<open>list_versions\<close>.\<close>

fun not_deleted :: "json list \<Rightarrow> py_error + json list" where
  "not_deleted [] = Inr []"
| "not_deleted (v # vs) =
     (case dict_get v ''status'' JNull of
        Inl e \<Rightarrow> Inl e
      | Inr st \<Rightarrow>
          (case not_deleted vs of
             Inl e \<Rightarrow> Inl e
           | Inr r \<Rightarrow> Inr (if st \<noteq> JStr ''deleted'' then v # r else r)))"

definition list_versions :: "project \<Rightarrow> bool \<Rightarrow> py_error + json" where
  "list_versions s include_deleted =
     (case dict_get (load_index s) ''versions'' (JArr []) of
        Inl e \<Rightarrow> Inl e
      | Inr versions \<Rightarrow>
          if include_deleted then Inr versions
          else (case py_iter versions of
                  Inl e \<Rightarrow> Inl e
                | Inr xs \<Rightarrow> map_sum id JArr (not_deleted xs)))"

text \<open>The views of the index the properties are stated with: the entries of a
  well-formed document, and the fields of an entry.\<close>

definition versions :: "project \<Rightarrow> json list" where
  "versions s = (case load_index s of
       JObj kvs \<Rightarrow> (case map_of kvs ''versions'' of Some (JArr vs) \<Rightarrow> vs | _ \<Rightarrow> [])
     | _ \<Rightarrow> [])"

definition field :: "string \<Rightarrow> json \<Rightarrow> json" where
  "field k v = (case v of JObj e \<Rightarrow> (case map_of e k of Some x \<Rightarrow> x | None \<Rightarrow> JNull) | _ \<Rightarrow> JNull)"

text \<open>The schema of \<^verbatim>\<open>index.json\<close>: an object whose \<^verbatim>\<open>versions\<close> is an array of objects
  that each have a \<^verbatim>\<open>file\<close>.\<close>

definition entry_ok :: "json \<Rightarrow> bool" where
  "entry_ok v = (case v of JObj e \<Rightarrow> map_of e ''file'' \<noteq> None | _ \<Rightarrow> False)"

definition doc_ok :: "json \<Rightarrow> bool" where
  "doc_ok d = (case d of
       JObj kvs \<Rightarrow> (case map_of kvs ''versions'' of Some (JArr vs) \<Rightarrow> list_all entry_ok vs | _ \<Rightarrow> False)
     | _ \<Rightarrow> False)"

definition index_ok :: "project \<Rightarrow> bool" where
  "index_ok s = doc_ok (load_index s)"

subsection \<open>File operations on a sub-directory\<close>



text \<open>\<^verbatim>\<open>os.remove\<close>.\<close>

definition remove_file :: "dir option \<Rightarrow> string \<Rightarrow> py_error + dir option" where
  "remove_file d n = (case dir_lookup d n of None \<Rightarrow> Inl FileNotFoundError
     | Some f \<Rightarrow> Inr (map_option (AList.delete n) d))"

text \<open>\<^verbatim>\<open>shutil.move(os.path.join(src, n), os.path.join(dst, n))\<close> from one sub-directory
  to the other, which exists; \<open>src_name\<close> is the name of the source directory. The result
  is the source directory and the target directory after the move.
  \<^item> A file keeps its bytes and its modification time, and replaces a file of its name.
  \<^item> With the empty name both paths are the directories themselves: the source directory
    is moved into the target directory under its own name, unless something of that name
    is there. The model lists the regular files of the two directories, so the source
    directory is gone afterwards and the listing of the target is as before.
  \<^item> With \<^verbatim>\<open>.\<close> the target path exists, and with \<^verbatim>\<open>..\<close> both paths are the project
    directory, which \<^verbatim>\<open>os.rename\<close> refuses: \<^verbatim>\<open>shutil.move\<close> raises.\<close>

definition move_file ::
  "string \<Rightarrow> dir option \<Rightarrow> dir \<Rightarrow> string \<Rightarrow> py_error + (dir option \<times> dir)" where
  "move_file src_name src dst n = (case dir_lookup src n of
       Some f \<Rightarrow> Inr (map_option (AList.delete n) src, AList.update n f dst)
     | None \<Rightarrow>
         if src \<noteq> None \<and> n = []
         then (if map_of dst src_name = None then Inr (None, dst) else Inl OSError)
         else if src \<noteq> None \<and> (n = ''.'' \<or> n = ''..'') then Inl OSError
         else Inl FileNotFoundError)"

subsection \<open>Loops over the entries of the index\<close>

text \<open>\<^verbatim>\<open>for v in ...: if v["file"] == name: <body>; found = True; break\<close>. The body changes
  the entry in place; the result says whether the body ran.\<close>

fun mark_first ::
  "(json \<Rightarrow> py_error + json) \<Rightarrow> string \<Rightarrow> json list \<Rightarrow> py_error + (bool \<times> json list)" where
  "mark_first body name [] = Inr (False, [])"
| "mark_first body name (v # vs) =
     (case getitem v ''file'' of
        Inl e \<Rightarrow> Inl e
      | Inr f \<Rightarrow>
          if f = JStr name
          then (case body v of Inl e \<Rightarrow> Inl e | Inr v' \<Rightarrow> Inr (True, v' # vs))
          else (case mark_first body name vs of
                  Inl e \<Rightarrow> Inl e
                | Inr (found, vs') \<Rightarrow> Inr (found, v # vs')))"

text \<open>\<^verbatim>\<open>for v in ...: if v.get("file") == name: v["status"] = "purged"\<close> (no \<^verbatim>\<open>break\<close>).\<close>

fun mark_purged :: "string \<Rightarrow> json list \<Rightarrow> py_error + json list" where
  "mark_purged name [] = Inr []"
| "mark_purged name (v # vs) =
     (case dict_get v ''file'' JNull of
        Inl e \<Rightarrow> Inl e
      | Inr f \<Rightarrow>
          (case (if f = JStr name then setitem v ''status'' (JStr ''purged'') else Inr v) of
             Inl e \<Rightarrow> Inl e
           | Inr v' \<Rightarrow>
               (case mark_purged name vs of
                  Inl e \<Rightarrow> Inl e
                | Inr vs' \<Rightarrow> Inr (v' # vs'))))"

text \<open>The loop changes the list that \<^verbatim>\<open>data.get("versions", [])\<close> returned. The change
  is seen in \<open>data\<close> when that list is the one stored in \<open>data\<close>, and lost when it is the
  default.\<close>

definition write_back :: "json \<Rightarrow> json \<Rightarrow> json \<Rightarrow> json" where
  "write_back data vs new = (case data of
       JObj kvs \<Rightarrow>
         (case vs of
            JArr old \<Rightarrow>
              if map_of kvs ''versions'' = None then data
              else JObj (AList.update ''versions'' new kvs)
          | _ \<Rightarrow> data)
     | _ \<Rightarrow> data)"

definition with_versions ::
  "(json list \<Rightarrow> py_error + 'a \<times> json list) \<Rightarrow> json \<Rightarrow> py_error + 'a \<times> json" where
  "with_versions loop data =
     (case dict_get data ''versions'' (JArr []) of
        Inl e \<Rightarrow> Inl e
      | Inr vs \<Rightarrow>
          (case py_iter vs of
             Inl e \<Rightarrow> Inl e
           | Inr xs \<Rightarrow>
               (case loop xs of
                  Inl e \<Rightarrow> Inl e
                | Inr (r, xs') \<Rightarrow> Inr (r, write_back data vs (JArr xs')))))"

subsection \<open>Snapshots\<close>


subsection \<open>Compression\<close>



subsection \<open>Moving to deleted/ and back\<close>

text \<open>\<^verbatim>\<open>move_to_deleted\<close>: \<^verbatim>\<open>_ensure_dir(deleted_dir)\<close> comes first, and the existence of
  the source is tested twice, on the same path.\<close>

definition move_to_deleted :: "project \<Rightarrow> string \<Rightarrow> (py_error + bool) \<times> project" where
  "move_to_deleted s file_basename =
     (let s1 = s\<lparr>deleted := ensure_dir (deleted s)\<rparr>
      in if \<not> path_exists (history s1) file_basename
            \<and> \<not> path_exists (history s1) file_basename
         then (Inr False, s1)
         else (case move_file ''history'' (history s1) (ensured (deleted s1)) file_basename of
                 Inl e \<Rightarrow> (Inr False, s1)
               | Inr (h, d) \<Rightarrow>
                   (let s2 = s1\<lparr>history := h, deleted := Some d\<rparr>
                    in case with_versions
                              (mark_first (\<lambda>v. setitem v ''status'' (JStr ''deleted'')) file_basename)
                              (load_index s2) of
                         Inl e \<Rightarrow> (Inl e, s2)
                       | Inr (found, data) \<Rightarrow> (Inr True, save_index s2 data))))"

text \<open>\<^verbatim>\<open>restore_deleted\<close>; \<open>stamp\<close> is the formatted time of a synthesized entry and
  \<open>dir_size\<close> the size the file system reports for \<^verbatim>\<open>history/\<close> (read when the basename is
  empty). In \<^verbatim>\<open>data.get("versions", []).append({...})\<close> the method is looked up before the
  new entry is built, hence the first \<open>py_append\<close>, whose result is not used.\<close>

definition restore_deleted ::
  "string \<Rightarrow> nat \<Rightarrow> project \<Rightarrow> string \<Rightarrow> (py_error + bool) \<times> project" where
  "restore_deleted stamp dir_size s file_basename =
     (if \<not> path_exists (deleted s) file_basename then (Inr False, s)
      else
        (let s1 = s\<lparr>history := ensure_dir (history s)\<rparr>
         in case move_file ''deleted'' (deleted s1) (ensured (history s1)) file_basename of
              Inl e \<Rightarrow> (Inr False, s1)
            | Inr (d, h) \<Rightarrow>
                (let s2 = s1\<lparr>history := Some h, deleted := d\<rparr>
                 in case with_versions
                           (mark_first (\<lambda>v. setitem v ''status'' (JStr ''active'')) file_basename)
                           (load_index s2) of
                      Inl e \<Rightarrow> (Inl e, s2)
                    | Inr (found, data) \<Rightarrow>
                        if found then (Inr True, save_index s2 data)
                        else
                          (case dict_get data ''versions'' (JArr []) of
                             Inl e \<Rightarrow> (Inl e, s2)
                           | Inr vs \<Rightarrow>
                               (case py_append vs JNull of
                                  Inl e \<Rightarrow> (Inl e, s2)
                                | Inr u \<Rightarrow>
                                    (case path_size dir_size (history s2) file_basename of
                                       None \<Rightarrow> (Inl FileNotFoundError, s2)
                                     | Some n \<Rightarrow>
                                         (case py_append vs
                                                 (new_entry file_basename stamp (Some n)
                                                    ''restored'' (endswith file_basename ''.gz'')) of
                                            Inl e \<Rightarrow> (Inl e, s2)
                                          | Inr vs' \<Rightarrow>
                                              (Inr True,
                                               save_index s2 (write_back data vs vs')))))))))"

subsection \<open>Project directories on disk, and glob on a full path\<close>

text \<open>
  \<^verbatim>\<open>compress_old_versions\<close> and \<^verbatim>\<open>purge_deleted_older_than\<close> list a directory with
  \<^verbatim>\<open>glob.glob\<close> on the full path, \<^verbatim>\<open>os.path.join(project_dir, "history", "*.blend")\<close> and
  \<^verbatim>\<open>os.path.join(project_dir, "deleted", "*")\<close>. In the directory part of a pattern the
  characters \<^verbatim>\<open>* ? [\<close> are pattern characters as well: when the project path has one,
  \<^verbatim>\<open>glob\<close> lists the files of every directory that the path matches as a pattern, which
  need not include the project directory itself. The state of these two functions is
  therefore the project directories on disk, by path. \<open>dir_match pattern p\<close> says that
  \<^verbatim>\<open>glob\<close> expands the directory pattern to the directory \<open>p\<close>. A file is given by the
  path of its project directory and its basename. The index that is read and written is
  always the one at the literal path \<^verbatim>\<open>os.path.join(project_dir, "index.json")\<close>.
\<close>

type_synonym world = "(string \<times> project) list"

text \<open>\<^verbatim>\<open>glob.has_magic\<close>.\<close>

definition has_magic :: "string \<Rightarrow> bool" where
  "has_magic p = (CHR ''*'' \<in> set p \<or> CHR ''?'' \<in> set p \<or> CHR ''['' \<in> set p)"

text \<open>The directories whose files are listed: the literal one, or those the pattern matches.\<close>

definition glob_dirs :: "(string \<Rightarrow> string \<Rightarrow> bool) \<Rightarrow> world \<Rightarrow> string \<Rightarrow> string list" where
  "glob_dirs dir_match w project_dir =
     (if has_magic project_dir then filter (dir_match project_dir) (map fst w)
      else [project_dir])"

text \<open>\<^verbatim>\<open>glob.glob(os.path.join(project_dir, sub, pattern))\<close>, where \<open>names\<close> lists the names of
  one directory that the last component matches (\<open>glob_all\<close> or \<open>glob_blend\<close>).\<close>

definition glob_paths ::
  "(dir option \<Rightarrow> string list) \<Rightarrow> (project \<Rightarrow> dir option) \<Rightarrow> (string \<Rightarrow> string \<Rightarrow> bool)
     \<Rightarrow> world \<Rightarrow> string \<Rightarrow> (string \<times> string) list" where
  "glob_paths names sub dir_match w project_dir =
     concat (map (\<lambda>p. case map_of w p of None \<Rightarrow> [] | Some s \<Rightarrow> map (Pair p) (names (sub s)))
               (glob_dirs dir_match w project_dir))"

text \<open>The files of one directory that \<^verbatim>\<open>*.blend\<close> matches, with what \<^verbatim>\<open>os.path.getmtime\<close>
  reads of them.\<close>

definition blend_files :: "dir option \<Rightarrow> (string \<times> fobj) list" where
  "blend_files d = (case d of None \<Rightarrow> []
     | Some fs \<Rightarrow> filter (\<lambda>e. \<not> hidden (fst e) \<and> endswith (fst e) ''.blend'') fs)"



text \<open>\<^verbatim>\<open>load_index\<close> and \<^verbatim>\<open>save_index\<close> at a project path; writing into a directory that
  is not there raises.\<close>

definition load_index_at :: "world \<Rightarrow> string \<Rightarrow> json" where
  "load_index_at w project_dir =
     (case map_of w project_dir of None \<Rightarrow> empty_index | Some s \<Rightarrow> load_index s)"

definition save_index_at :: "world \<Rightarrow> string \<Rightarrow> json \<Rightarrow> py_error + world" where
  "save_index_at w project_dir data =
     (case map_of w project_dir of
        None \<Rightarrow> Inl FileNotFoundError
      | Some s \<Rightarrow> Inr (AList.update project_dir (save_index s data) w))"




subsection \<open>Purging\<close>

text \<open>\<^verbatim>\<open>os.path.getmtime\<close> and \<^verbatim>\<open>os.remove\<close> on a path \<^verbatim>\<open>glob\<close> returned from a
  \<^verbatim>\<open>deleted/\<close> directory.\<close>

definition getmtime_at :: "world \<Rightarrow> string \<times> string \<Rightarrow> py_error + int" where
  "getmtime_at w path =
     (case map_of w (fst path) of
        None \<Rightarrow> Inl FileNotFoundError
      | Some s \<Rightarrow> getmtime (deleted s) (snd path))"

definition remove_at :: "world \<Rightarrow> string \<times> string \<Rightarrow> py_error + world" where
  "remove_at w path =
     (case map_of w (fst path) of
        None \<Rightarrow> Inl FileNotFoundError
      | Some s \<Rightarrow>
          (case remove_file (deleted s) (snd path) of
             Inl e \<Rightarrow> Inl e
           | Inr d \<Rightarrow> Inr (AList.update (fst path) (s\<lparr>deleted := d\<rparr>) w)))"

text \<open>The first loop of \<^verbatim>\<open>purge_deleted_older_than\<close>, over the paths \<^verbatim>\<open>glob\<close> returned:
  the result is the list \<^verbatim>\<open>removed\<close> (or the exception that left the loop) and the
  directories after the removals.\<close>

fun purge_files_at ::
  "int \<Rightarrow> int \<Rightarrow> world \<Rightarrow> (string \<times> string) list \<Rightarrow> (py_error + string list) \<times> world" where
  "purge_files_at now days w [] = (Inr [], w)"
| "purge_files_at now days w (f # fs) =
     (case getmtime_at w f of
        Inl e \<Rightarrow> (Inl e, w)
      | Inr t \<Rightarrow>
          if now - t > days * 86400
          then (case remove_at w f of
                  Inl e \<Rightarrow> purge_files_at now days w fs
                | Inr w' \<Rightarrow>
                    (case purge_files_at now days w' fs of
                       (Inl e, w'') \<Rightarrow> (Inl e, w'')
                     | (Inr r, w'') \<Rightarrow> (Inr (snd f # r), w'')))
          else purge_files_at now days w fs)"

text \<open>The second loop: one pass over the entries for every removed name.\<close>

fun purge_entries :: "string list \<Rightarrow> json \<Rightarrow> py_error + json" where
  "purge_entries [] data = Inr data"
| "purge_entries (name # names) data =
     (case with_versions (\<lambda>xs. map_sum id (Pair ()) (mark_purged name xs)) data of
        Inl e \<Rightarrow> Inl e
      | Inr (u, data') \<Rightarrow> purge_entries names data')"

definition purge_deleted_older_than ::
  "(string \<Rightarrow> string \<Rightarrow> bool) \<Rightarrow> int \<Rightarrow> world \<Rightarrow> string \<Rightarrow> int
     \<Rightarrow> (py_error + string list) \<times> world" where
  "purge_deleted_older_than dir_match now w project_dir days =
     (case purge_files_at now days w (glob_paths glob_all deleted dir_match w project_dir) of
        (Inl e, w1) \<Rightarrow> (Inl e, w1)
      | (Inr removed, w1) \<Rightarrow>
          if removed \<noteq> []
          then (case purge_entries removed (load_index_at w1 project_dir) of
                  Inl e \<Rightarrow> (Inl e, w1)
                | Inr data \<Rightarrow>
                    (case save_index_at w1 project_dir data of
                       Inl e \<Rightarrow> (Inl e, w1)
                     | Inr w2 \<Rightarrow> (Inr removed, w2)))
          else (Inr removed, w1))"

subsection \<open>The two functions on a project directory of literal path\<close>

text \<open>
  When the project path has no pattern character, every path \<^verbatim>\<open>glob\<close> returns is a file
  of the project's own sub-directory, and the two functions read and write this one
  project. The definitions below are the same loops on the project alone; that they agree
  with the definitions above is proved, and the properties of the two functions are
  proved through them.
\<close>

definition newest_first :: "dir option \<Rightarrow> string list" where
  "newest_first d = map fst (sort_key (\<lambda>e. - mtime (snd e)) (blend_files d))"





subsection \<open>Views used to state the properties\<close>

text \<open>An entry with one field set, and a list of entries with a function applied to the
  first entry of a given file name.\<close>

definition set_field :: "string \<Rightarrow> json \<Rightarrow> json \<Rightarrow> json" where
  "set_field k x v = (case v of JObj e \<Rightarrow> JObj (AList.update k x e) | _ \<Rightarrow> v)"

fun apply_first :: "string \<Rightarrow> (json \<Rightarrow> json) \<Rightarrow> json list \<Rightarrow> json list" where
  "apply_first name g [] = []"
| "apply_first name g (v # vs) =
     (if field ''file'' v = JStr name then g v # vs else v # apply_first name g vs)"

text \<open>What the compression does to the entry of a compressed file: \<^verbatim>\<open>compressed\<close> is set,
  \<^verbatim>\<open>file\<close> is the new name, and \<^verbatim>\<open>status\<close> is kept (an entry without one becomes
  \<^verbatim>\<open>active\<close>).\<close>

definition compressed_entry :: "string \<Rightarrow> json \<Rightarrow> json" where
  "compressed_entry gz_name v =
     set_field ''status''
       (case v of
          JObj e \<Rightarrow> (case map_of e ''status'' of None \<Rightarrow> JStr ''active'' | Some x \<Rightarrow> x)
        | _ \<Rightarrow> JStr ''active'')
       (set_field ''file'' (JStr gz_name) (set_field ''compressed'' (JBool True) v))"


text \<open>The entries after the files \<open>ns\<close> were compressed, one after the other.\<close>

definition compress_entries :: "string list \<Rightarrow> json list \<Rightarrow> json list" where
  "compress_entries ns vs =
     foldl (\<lambda>xs n. apply_first n (compressed_entry (n @ ''.gz'')) xs) vs ns"





text \<open>What the purge does to an entry when the names in \<open>removed\<close> were purged.\<close>

definition purge_entry :: "string list \<Rightarrow> json \<Rightarrow> json" where
  "purge_entry removed v =
     (if field ''file'' v \<in> JStr ` set removed then set_field ''status'' (JStr ''purged'') v else v)"


subsection \<open>Sequences of operations\<close>


text \<open>What is found at a project path: of a directory that is not there, no sub-directory
  and no index.\<close>

definition project_at :: "world \<Rightarrow> string \<Rightarrow> project" where
  "project_at w project_dir =
     (case map_of w project_dir of
        None \<Rightarrow> \<lparr>history = None, deleted = None, index_json = None\<rparr>
      | Some s \<Rightarrow> s)"








subsection \<open>A registration between the read and the write of a purge\<close>

text \<open>
  \<^verbatim>\<open>_autosave_worker\<close> starts \<^verbatim>\<open>compress_old_versions\<close> and \<^verbatim>\<open>purge_deleted_older_than\<close> on
  a thread of their own and returns, so the next \<^verbatim>\<open>register_version\<close> of the main thread
  can run while they do; no lock is taken. The schedule below is
  \<^verbatim>\<open>purge_deleted_older_than\<close> as defined above, with one \<^verbatim>\<open>register_version\<close> on the same
  project directory that runs from its first line to its last after the purge has read
  the index (\<^verbatim>\<open>data = load_index(project_dir)\<close>) and before it writes it back
  (\<^verbatim>\<open>save_index(project_dir, data)\<close>). When the purge reads no index, the registration
  follows it. The result is what the purge returns, what the registration returns, and
  the directories afterwards.
\<close>

definition register_at ::
  "world \<Rightarrow> string \<Rightarrow> fpath \<Rightarrow> string \<Rightarrow> bool \<Rightarrow> string \<Rightarrow> (py_error + json) \<times> world" where
  "register_at w project_dir filename note compressed stamp =
     (case map_of w project_dir of
        None \<Rightarrow> (Inl FileNotFoundError, w)
      | Some s \<Rightarrow>
          (case register_version s filename note compressed stamp of
             (r, s') \<Rightarrow> (r, AList.update project_dir s' w)))"

definition purge_with_registration_between ::
  "(string \<Rightarrow> string \<Rightarrow> bool) \<Rightarrow> int \<Rightarrow> world \<Rightarrow> string \<Rightarrow> int
     \<Rightarrow> fpath \<Rightarrow> string \<Rightarrow> bool \<Rightarrow> string
     \<Rightarrow> (py_error + string list) \<times> (py_error + json) \<times> world" where
  "purge_with_registration_between dir_match now w project_dir days filename note compressed stamp =
     (case purge_files_at now days w (glob_paths glob_all deleted dir_match w project_dir) of
        (Inl e, w1) \<Rightarrow>
          (case register_at w1 project_dir filename note compressed stamp of
             (r, w2) \<Rightarrow> (Inl e, r, w2))
      | (Inr removed, w1) \<Rightarrow>
          if removed \<noteq> []
          then (let data = load_index_at w1 project_dir
                in case register_at w1 project_dir filename note compressed stamp of
                     (r, w2) \<Rightarrow>
                       (case purge_entries removed data of
                          Inl e \<Rightarrow> (Inl e, r, w2)
                        | Inr data' \<Rightarrow>
                            (case save_index_at w2 project_dir data' of
                               Inl e \<Rightarrow> (Inl e, r, w2)
                             | Inr w3 \<Rightarrow> (Inr removed, r, w3))))
          else (case register_at w1 project_dir filename note compressed stamp of
                  (r, w2) \<Rightarrow> (Inr removed, r, w2)))"

subsection \<open>Example projects\<close>

definition demo_entry :: "string \<Rightarrow> string \<Rightarrow> json" where
  "demo_entry file status = JObj
     [(''file'', JStr file), (''timestamp'', JStr ''2024-05-01 10:00:00''), (''size_MB'', JNull),
      (''note'', JStr ''auto''), (''status'', JStr status), (''compressed'', JBool False)]"

definition demo_project :: project where
  "demo_project = \<lparr>
     history = Some [(''scene_1.blend'', \<lparr>content = ''AAAA'', mtime = 100\<rparr>),
                     (''scene_2.blend'', \<lparr>content = ''BB'', mtime = 200\<rparr>),
                     (''scene_3.blend'', \<lparr>content = ''C'', mtime = 300\<rparr>),
                     (''stray.blend'', \<lparr>content = ''S'', mtime = 50\<rparr>)],
     deleted = Some [(''scene_0.blend'', \<lparr>content = ''old'', mtime = 10\<rparr>),
                     (''.scene_h.blend'', \<lparr>content = ''dot'', mtime = 10\<rparr>),
                     (''scene_9.blend'', \<lparr>content = ''new'', mtime = 999000\<rparr>)],
     index_json = Some (Parsed (JObj [(''versions'', JArr
       [demo_entry ''scene_0.blend'' ''deleted'',
        demo_entry ''scene_x.blend'' ''purged'',
        demo_entry ''scene_1.blend'' ''active'',
        demo_entry ''scene_2.blend'' ''active'',
        demo_entry ''scene_3.blend'' ''active''])]))\<rparr>"

text \<open>A fresh project directory: no sub-directory yet and no index.\<close>

definition fresh_project :: project where
  "fresh_project = \<lparr>history = None, deleted = None, index_json = None\<rparr>"




definition shot_match :: "string \<Rightarrow> string \<Rightarrow> bool" where
  "shot_match pattern p = (pattern = ''shot[1]'' \<and> p = ''shot1'')"

text \<open>A project whose index is a JSON object without \<^verbatim>\<open>versions\<close>.\<close>

definition keyless_project :: project where
  "keyless_project = \<lparr>history = Some [(''scene_1.blend'', \<lparr>content = ''AAAA'', mtime = 100\<rparr>)],
     deleted = None, index_json = Some (Parsed (JObj []))\<rparr>"

section \<open>Properties\<close>

subsection \<open>Well-formed index documents\<close>

lemma doc_ok_iff:
  "doc_ok d \<longleftrightarrow>
     (\<exists>kvs vs. d = JObj kvs \<and> map_of kvs ''versions'' = Some (JArr vs) \<and> list_all entry_ok vs)"
proof (cases d)
  case (JObj kvs)
  show ?thesis
  proof (cases "map_of kvs ''versions''")
    case None
    with JObj show ?thesis by (simp add: doc_ok_def)
  next
    case (Some x)
    with JObj show ?thesis by (cases x) (simp_all add: doc_ok_def)
  qed
qed (simp_all add: doc_ok_def)

lemma index_okE:
  assumes "index_ok s"
  obtains kvs vs where "load_index s = JObj kvs" "map_of kvs ''versions'' = Some (JArr vs)"
    "list_all entry_ok vs" "versions s = vs"
  using assms unfolding index_ok_def doc_ok_iff by (auto simp: versions_def)

lemma entry_okE:
  assumes "entry_ok v"
  obtains e x where "v = JObj e" "map_of e ''file'' = Some x"
  using assms by (cases v) (auto simp: entry_ok_def)

lemma load_save [simp]: "load_index (save_index s d) = d"
  by (simp add: load_index_def save_index_def)

lemma index_ok_demo: "index_ok demo_project"
  by (simp add: index_ok_def doc_ok_def load_index_def demo_project_def demo_entry_def
      entry_ok_def)

lemma versions_demo:
  "versions demo_project =
     [demo_entry ''scene_0.blend'' ''deleted'', demo_entry ''scene_x.blend'' ''purged'',
      demo_entry ''scene_1.blend'' ''active'', demo_entry ''scene_2.blend'' ''active'',
      demo_entry ''scene_3.blend'' ''active'']"
  by (simp add: versions_def load_index_def demo_project_def)

lemma field_demo [simp]:
  "field ''status'' (demo_entry f st) = JStr st"
  "field ''file'' (demo_entry f st) = JStr f"
  by (simp_all add: field_def demo_entry_def)

subsection \<open>Listing\<close>

lemma not_deleted_ok:
  "list_all entry_ok vs \<Longrightarrow>
     not_deleted vs = Inr (filter (\<lambda>v. field ''status'' v \<noteq> JStr ''deleted'') vs)"
proof (induction vs)
  case Nil
  show ?case by simp
next
  case (Cons v vs)
  from Cons.prems obtain e where "v = JObj e" by (auto elim: entry_okE)
  with Cons show ?case by (simp add: field_def split: option.splits)
qed

text \<open>
  Claim C4. On a project whose index follows the schema, \<^verbatim>\<open>list_versions\<close> with
  \<^verbatim>\<open>include_deleted=False\<close> returns the entries of the index in index order without
  exactly those whose status is \<^verbatim>\<open>deleted\<close>; an entry whose status is \<^verbatim>\<open>purged\<close> is
  still in the result.
\<close>

theorem list_versions_hides_deleted_only:
  assumes "index_ok s"
  shows "list_versions s False =
           Inr (JArr (filter (\<lambda>v. field ''status'' v \<noteq> JStr ''deleted'') (versions s)))
     \<and> (\<forall>v \<in> set (versions s). field ''status'' v = JStr ''purged'' \<longrightarrow>
           (\<exists>r. list_versions s False = Inr (JArr r) \<and> v \<in> set r))"
proof -
  from assms obtain kvs vs where d: "load_index s = JObj kvs"
      "map_of kvs ''versions'' = Some (JArr vs)" "list_all entry_ok vs" "versions s = vs"
    by (rule index_okE)
  have "list_versions s False =
          Inr (JArr (filter (\<lambda>v. field ''status'' v \<noteq> JStr ''deleted'') vs))"
    using d by (simp add: list_versions_def not_deleted_ok)
  then show ?thesis by (simp add: d)
qed

text \<open>
  Claim C4, on the example project: the entry of status \<^verbatim>\<open>deleted\<close> is left out, the
  entry of status \<^verbatim>\<open>purged\<close> is listed.
\<close>

theorem list_versions_hides_deleted_only_witness:
  "index_ok demo_project \<and>
   list_versions demo_project False =
     Inr (JArr [demo_entry ''scene_x.blend'' ''purged'', demo_entry ''scene_1.blend'' ''active'',
                demo_entry ''scene_2.blend'' ''active'', demo_entry ''scene_3.blend'' ''active''])"
  using list_versions_hides_deleted_only [OF index_ok_demo]
  by (simp add: index_ok_demo versions_demo)

subsection \<open>Exceptions that reach the caller\<close>

text \<open>
  Claim C8. \<^verbatim>\<open>register_version\<close> reads \<^verbatim>\<open>data["versions"]\<close>, where the other functions
  read \<^verbatim>\<open>data.get("versions", [])\<close>: on an index that is a JSON object without that key
  the \<^verbatim>\<open>KeyError\<close> reaches the caller, and nothing is written.
\<close>

theorem register_version_raises_on_keyless_index:
  "register_version keyless_project (InHistory ''scene_1.blend'') ''auto'' False
       ''2024-05-01 10:00:00''
     = (Inl KeyError, keyless_project)"
  by (simp add: register_version_def load_index_def keyless_project_def)

subsection \<open>Moving a file that is not in history/\<close>

text \<open>
  Claim C5 does not hold of the code. \<^verbatim>\<open>move_to_deleted\<close> runs \<^verbatim>\<open>_ensure_dir(deleted_dir)\<close>
  before it looks for the file: on a fresh project it returns false for a file that is
  not there and has created the directory \<^verbatim>\<open>deleted/\<close>, where \<^verbatim>\<open>restore_deleted\<close>, which
  looks for its file first, leaves the project as it was. And with the empty basename,
  which is not the name of a file of \<^verbatim>\<open>history/\<close>, the path tested and moved is
  \<^verbatim>\<open>history/\<close> itself: the call returns true and \<^verbatim>\<open>history/\<close> is gone.
\<close>

theorem move_to_deleted_creates_deleted_dir:
  "dir_lookup (history fresh_project) ''scene_1.blend'' = None \<and>
   move_to_deleted fresh_project ''scene_1.blend''
     = (Inr False, fresh_project\<lparr>deleted := Some []\<rparr>) \<and>
   fresh_project\<lparr>deleted := Some []\<rparr> \<noteq> fresh_project \<and>
   restore_deleted ''2024-05-02 09:00:00'' 4096 fresh_project ''scene_1.blend''
     = (Inr False, fresh_project) \<and>
   dir_lookup (history demo_project) [] = None \<and>
   fst (move_to_deleted demo_project []) = Inr True \<and>
   history (snd (move_to_deleted demo_project [])) = None"
  by (simp add: move_to_deleted_def restore_deleted_def fresh_project_def demo_project_def
      dir_lookup_def ensure_dir_def ensured_def path_exists_def move_file_def with_versions_def
      load_index_def write_back_def save_index_def demo_entry_def)

subsection \<open>The loops over the entries, on a well-formed index\<close>

lemma setitem_entry: "entry_ok v \<Longrightarrow> setitem v k x = Inr (set_field k x v)"
  by (auto elim!: entry_okE simp: set_field_def)

lemma entry_ok_set_field: "entry_ok v \<Longrightarrow> entry_ok (set_field k x v)"
  by (erule entry_okE) (simp add: set_field_def entry_ok_def update_conv')

lemma field_set_field:
  "entry_ok v \<Longrightarrow> field k' (set_field k x v) = (if k' = k then x else field k' v)"
  by (auto elim!: entry_okE simp: set_field_def field_def update_conv')

lemma getitem_file: "entry_ok v \<Longrightarrow> getitem v ''file'' = Inr (field ''file'' v)"
  by (auto elim!: entry_okE simp: field_def)

lemma mark_first_ok:
  assumes "list_all entry_ok vs" and "\<And>v. entry_ok v \<Longrightarrow> body v = Inr (g v)"
  shows "mark_first body name vs = Inr (JStr name \<in> field ''file'' ` set vs, apply_first name g vs)"
  using assms(1)
proof (induction vs)
  case Nil
  show ?case by simp
next
  case (Cons v vs)
  then have v: "entry_ok v" and vs: "list_all entry_ok vs" by simp_all
  show ?case using Cons.IH [OF vs] by (auto simp: getitem_file [OF v] assms(2) [OF v])
qed

lemma with_versions_doc:
  assumes "d = JObj kvs" "map_of kvs ''versions'' = Some (JArr vs)"
  shows "with_versions loop d =
    (case loop vs of Inl e \<Rightarrow> Inl e
     | Inr (r, xs') \<Rightarrow> Inr (r, JObj (AList.update ''versions'' (JArr xs') kvs)))"
  using assms by (simp add: with_versions_def write_back_def split: sum.splits prod.splits)

lemma apply_first_length [simp]: "length (apply_first name g vs) = length vs"
  by (induction vs) simp_all

lemma apply_first_none:
  "\<forall>v\<in>set vs. field ''file'' v \<noteq> JStr name \<Longrightarrow> apply_first name g vs = vs"
  by (induction vs) simp_all

lemma apply_first_ok:
  "list_all entry_ok vs \<Longrightarrow> (\<And>v. entry_ok v \<Longrightarrow> entry_ok (g v)) \<Longrightarrow> list_all entry_ok (apply_first name g vs)"
  by (induction vs) simp_all

lemma apply_first_nth:
  "i < length vs \<Longrightarrow>
   apply_first name g vs ! i =
     (if field ''file'' (vs ! i) = JStr name \<and> (\<forall>j<i. field ''file'' (vs ! j) \<noteq> JStr name)
      then g (vs ! i) else vs ! i)"
proof (induction vs arbitrary: i)
  case Nil
  then show ?case by simp
next
  case (Cons v vs)
  show ?case
  proof (cases i)
    case 0
    then show ?thesis by simp
  next
    case (Suc k)
    with Cons.prems have k: "k < length vs" by simp
    show ?thesis
    proof (cases "field ''file'' v = JStr name")
      case True
      with Suc show ?thesis by auto
    next
      case False
      have "(\<forall>j<Suc k. field ''file'' ((v # vs) ! j) \<noteq> JStr name) = (\<forall>j<k. field ''file'' (vs ! j) \<noteq> JStr name)"
        using False by (auto simp: less_Suc_eq_0_disj)
      with False Suc Cons.IH [OF k] show ?thesis by auto
    qed
  qed
qed

lemma apply_first_files:
  "(\<And>v. entry_ok v \<Longrightarrow> field ''file'' (g v) = field ''file'' v) \<Longrightarrow> list_all entry_ok vs \<Longrightarrow>
   map (field ''file'') (apply_first name g vs) = map (field ''file'') vs"
  by (induction vs) simp_all

lemma apply_first_twice:
  "(\<And>v. entry_ok v \<Longrightarrow> field ''file'' (g v) = field ''file'' v) \<Longrightarrow> list_all entry_ok vs \<Longrightarrow>
   apply_first name h (apply_first name g vs) = apply_first name (\<lambda>v. h (g v)) vs"
  by (induction vs) simp_all

lemma dir_lookup_delete [simp]: "dir_lookup (map_option (AList.delete n) d) m = (if m = n then None else dir_lookup d m)"
  by (cases d) (simp_all add: dir_lookup_def delete_conv')

lemma dir_lookup_update [simp]: "dir_lookup (Some (AList.update n f fs)) m = (if m = n then Some f else dir_lookup (Some fs) m)"
  by (simp add: dir_lookup_def update_conv')

lemma ensure_dir_Some: "\<exists>fs. ensure_dir d = Some fs"
  by (cases d) (simp_all add: ensure_dir_def)

lemma versions_save: "map_of kvs ''versions'' = Some (JArr vs) \<Longrightarrow> versions (save_index s (JObj kvs)) = vs"
  by (simp add: versions_def)

lemma load_index_dirs [simp]:
  "load_index (s\<lparr>history := h\<rparr>) = load_index s" "load_index (s\<lparr>deleted := d\<rparr>) = load_index s"
  by (simp_all add: load_index_def)

lemma move_to_deleted_present:
  assumes f: "dir_lookup (history s) b = Some f"
    and d: "load_index s = JObj kvs" "map_of kvs ''versions'' = Some (JArr vs)" "list_all entry_ok vs"
  shows "move_to_deleted s b =
     (Inr True, \<lparr>history = map_option (AList.delete b) (history s),
                deleted = Some (AList.update b f (case deleted s of None \<Rightarrow> [] | Some fs \<Rightarrow> fs)),
                index_json = Some (Parsed (JObj (AList.update ''versions''
                   (JArr (apply_first b (set_field ''status'' (JStr ''deleted'')) vs)) kvs)))\<rparr>)"
proof -
  have e: "ensure_dir (deleted s) = Some (case deleted s of None \<Rightarrow> [] | Some fs \<Rightarrow> fs)"
    by (cases "deleted s") (simp_all add: ensure_dir_def)
  have m: "mark_first (\<lambda>v. setitem v ''status'' (JStr ''deleted'')) b vs
       = Inr (JStr b \<in> field ''file'' ` set vs, apply_first b (set_field ''status'' (JStr ''deleted'')) vs)"
    by (rule mark_first_ok [OF d(3)]) (rule setitem_entry)
  show ?thesis
    using f by (simp add: move_to_deleted_def move_file_def path_exists_def ensured_def e
        with_versions_doc [OF d(1,2)] m save_index_def)
qed


lemma restore_deleted_found:
  assumes f: "dir_lookup (deleted s) b = Some f"
    and d: "load_index s = JObj kvs" "map_of kvs ''versions'' = Some (JArr vs)" "list_all entry_ok vs"
    and found: "JStr b \<in> field ''file'' ` set vs"
  shows "restore_deleted stamp dir_size s b =
     (Inr True, \<lparr>history = Some (AList.update b f (case history s of None \<Rightarrow> [] | Some fs \<Rightarrow> fs)),
                deleted = map_option (AList.delete b) (deleted s),
                index_json = Some (Parsed (JObj (AList.update ''versions''
                   (JArr (apply_first b (set_field ''status'' (JStr ''active'')) vs)) kvs)))\<rparr>)"
proof -
  have e: "ensure_dir (history s) = Some (case history s of None \<Rightarrow> [] | Some fs \<Rightarrow> fs)"
    by (cases "history s") (simp_all add: ensure_dir_def)
  have m: "mark_first (\<lambda>v. setitem v ''status'' (JStr ''active'')) b vs
       = Inr (True, apply_first b (set_field ''status'' (JStr ''active'')) vs)"
    using mark_first_ok [OF d(3), of "\<lambda>v. setitem v ''status'' (JStr ''active'')" "set_field ''status'' (JStr ''active'')" b]
      found by (simp add: setitem_entry)
  show ?thesis
    using f by (simp add: restore_deleted_def move_file_def path_exists_def ensured_def e
        with_versions_doc [OF d(1,2)] m save_index_def)
qed

subsection \<open>Moving a file that has no entry\<close>

text \<open>
  Claim C10. When the file is in \<^verbatim>\<open>history/\<close> and no entry of the index has its name,
  \<^verbatim>\<open>move_to_deleted\<close> moves the file to \<^verbatim>\<open>deleted/\<close> and returns true; the index is
  written back with the entries it had, none of them changed: the true result does not mean
  that an entry was marked.
\<close>

theorem move_to_deleted_without_entry:
  assumes "dir_lookup (history s) b = Some f"
    and "index_ok s"
    and "\<forall>v \<in> set (versions s). field ''file'' v \<noteq> JStr b"
  shows "move_to_deleted s b =
           (Inr True, \<lparr>history = map_option (AList.delete b) (history s),
                       deleted = Some (AList.update b f (case deleted s of None \<Rightarrow> [] | Some fs \<Rightarrow> fs)),
                       index_json = Some (Parsed (load_index s))\<rparr>)
     \<and> dir_lookup (history (snd (move_to_deleted s b))) b = None
     \<and> dir_lookup (deleted (snd (move_to_deleted s b))) b = Some f
     \<and> versions (snd (move_to_deleted s b)) = versions s"
proof -
  from assms(2) obtain kvs vs where d: "load_index s = JObj kvs"
      "map_of kvs ''versions'' = Some (JArr vs)" "list_all entry_ok vs" "versions s = vs"
    by (rule index_okE)
  have same: "apply_first b (set_field ''status'' (JStr ''deleted'')) vs = vs"
    using assms(3) d(4) by (simp add: apply_first_none)
  have m: "move_to_deleted s b =
           (Inr True, \<lparr>history = map_option (AList.delete b) (history s),
                       deleted = Some (AList.update b f (case deleted s of None \<Rightarrow> [] | Some fs \<Rightarrow> fs)),
                       index_json = Some (Parsed (load_index s))\<rparr>)"
    using move_to_deleted_present [OF assms(1) d(1,2,3)] by (simp add: same update_triv [OF d(2)] d(1))
  have v: "versions (snd (move_to_deleted s b)) = versions s"
    by (simp add: m versions_def load_index_def)
  show ?thesis using m v by simp
qed

text \<open>
  Claim C10, on the example project: \<^verbatim>\<open>stray.blend\<close> is in \<^verbatim>\<open>history/\<close> and not in the
  index.
\<close>

theorem move_to_deleted_without_entry_witness:
  "dir_lookup (history demo_project) ''stray.blend'' = Some \<lparr>content = ''S'', mtime = 50\<rparr>
   \<and> index_ok demo_project
   \<and> JStr ''stray.blend'' \<notin> field ''file'' ` set (versions demo_project)
   \<and> fst (move_to_deleted demo_project ''stray.blend'') = Inr True
   \<and> dir_lookup (history (snd (move_to_deleted demo_project ''stray.blend''))) ''stray.blend'' = None
   \<and> dir_lookup (deleted (snd (move_to_deleted demo_project ''stray.blend''))) ''stray.blend''
        = Some \<lparr>content = ''S'', mtime = 50\<rparr>
   \<and> versions (snd (move_to_deleted demo_project ''stray.blend'')) = versions demo_project"
proof -
  have h: "dir_lookup (history demo_project) ''stray.blend'' = Some \<lparr>content = ''S'', mtime = 50\<rparr>"
    by (simp add: dir_lookup_def demo_project_def)
  have n: "\<forall>v \<in> set (versions demo_project). field ''file'' v \<noteq> JStr ''stray.blend''"
    by (simp add: versions_demo)
  have n': "JStr ''stray.blend'' \<notin> field ''file'' ` set (versions demo_project)"
    by (simp add: versions_demo)
  note w = move_to_deleted_without_entry [OF h index_ok_demo n]
  from w have r: "fst (move_to_deleted demo_project ''stray.blend'') = Inr True" by simp
  from w h n' index_ok_demo r show ?thesis by blast
qed

subsection \<open>Moving to deleted/ and back\<close>

text \<open>
  Claim C6. When the file is in \<^verbatim>\<open>history/\<close> and entry \<open>i\<close> of the index has its name
  and the status \<^verbatim>\<open>active\<close>, \<^verbatim>\<open>move_to_deleted\<close> followed by \<^verbatim>\<open>restore_deleted\<close> succeed
  both; the file is back in \<^verbatim>\<open>history/\<close> with the same bytes (and modification time) and
  no longer in \<^verbatim>\<open>deleted/\<close>, and entry \<open>i\<close> has the same name and the status \<^verbatim>\<open>active\<close>.
\<close>

theorem move_then_restore:
  assumes "dir_lookup (history s) b = Some f"
    and "index_ok s"
    and "i < length (versions s)"
    and "field ''file'' (versions s ! i) = JStr b"
    and "field ''status'' (versions s ! i) = JStr ''active''"
  shows "fst (move_to_deleted s b) = Inr True
     \<and> fst (restore_deleted stamp dir_size (snd (move_to_deleted s b)) b) = Inr True
     \<and> dir_lookup (history (snd (restore_deleted stamp dir_size (snd (move_to_deleted s b)) b))) b = Some f
     \<and> dir_lookup (deleted (snd (restore_deleted stamp dir_size (snd (move_to_deleted s b)) b))) b = None
     \<and> length (versions (snd (restore_deleted stamp dir_size (snd (move_to_deleted s b)) b))) = length (versions s)
     \<and> field ''file'' (versions (snd (restore_deleted stamp dir_size (snd (move_to_deleted s b)) b)) ! i) = JStr b
     \<and> field ''status'' (versions (snd (restore_deleted stamp dir_size (snd (move_to_deleted s b)) b)) ! i)
          = JStr ''active''"
proof -
  from assms(2) obtain kvs vs where d: "load_index s = JObj kvs"
      "map_of kvs ''versions'' = Some (JArr vs)" "list_all entry_ok vs" "versions s = vs"
    by (rule index_okE)
  define del where "del = set_field ''status'' (JStr ''deleted'')"
  define act where "act = set_field ''status'' (JStr ''active'')"
  define vs1 where "vs1 = apply_first b del vs"
  define kvs1 where "kvs1 = AList.update ''versions'' (JArr vs1) kvs"
  define s1 where "s1 = \<lparr>history = map_option (AList.delete b) (history s),
      deleted = Some (AList.update b f (case deleted s of None \<Rightarrow> [] | Some fs \<Rightarrow> fs)),
      index_json = Some (Parsed (JObj kvs1))\<rparr>"
  have m: "move_to_deleted s b = (Inr True, s1)"
    using move_to_deleted_present [OF assms(1) d(1,2,3)]
    by (simp add: s1_def kvs1_def vs1_def del_def)
  have i: "i < length vs" and fi: "field ''file'' (vs ! i) = JStr b"
    and si: "field ''status'' (vs ! i) = JStr ''active''"
    using assms(3,4,5) d(4) by simp_all
  have oki: "entry_ok (vs ! i)" using d(3) i by (simp add: list_all_length)
  have f1: "dir_lookup (deleted s1) b = Some f" by (simp add: s1_def)
  have l1: "load_index s1 = JObj kvs1" by (simp add: s1_def load_index_def)
  have k1: "map_of kvs1 ''versions'' = Some (JArr vs1)" by (simp add: kvs1_def update_conv')
  have ok1: "list_all entry_ok vs1"
    unfolding vs1_def del_def by (rule apply_first_ok [OF d(3)]) (rule entry_ok_set_field)
  have files1: "map (field ''file'') vs1 = map (field ''file'') vs"
    unfolding vs1_def del_def by (rule apply_first_files [OF _ d(3)]) (simp add: field_set_field)
  have "JStr b \<in> set (map (field ''file'') vs)" using i fi by (metis length_map nth_map nth_mem)
  then have found: "JStr b \<in> field ''file'' ` set vs1" using files1 by (metis set_map)
  define s2 where "s2 = \<lparr>history = Some (AList.update b f (case history s1 of None \<Rightarrow> [] | Some fs \<Rightarrow> fs)),
      deleted = map_option (AList.delete b) (deleted s1),
      index_json = Some (Parsed (JObj (AList.update ''versions'' (JArr (apply_first b act vs1)) kvs1)))\<rparr>"
  have r: "restore_deleted stamp dir_size s1 b = (Inr True, s2)"
    using restore_deleted_found [OF f1 l1 k1 ok1 found] by (simp add: s2_def act_def)
  have v2: "versions s2 = apply_first b (\<lambda>v. act (del v)) vs"
    unfolding vs1_def del_def
    by (simp add: s2_def versions_def load_index_def update_conv' vs1_def del_def
        apply_first_twice [OF _ d(3)] field_set_field)
  have ad: "field ''file'' (act (del (vs ! i))) = JStr b \<and> field ''status'' (act (del (vs ! i))) = JStr ''active''"
    using oki fi by (simp add: act_def del_def field_set_field entry_ok_set_field)
  have e: "field ''file'' (versions s2 ! i) = JStr b \<and> field ''status'' (versions s2 ! i) = JStr ''active''"
    using ad fi si by (simp add: v2 apply_first_nth [OF i])
  have h2: "dir_lookup (history s2) b = Some f" by (simp add: s2_def)
  have d2: "dir_lookup (deleted s2) b = None" by (simp add: s2_def)
  have len: "length (versions s2) = length (versions s)" by (simp add: v2 d(4))
  show ?thesis using h2 d2 len e by (simp add: m r)
qed

text \<open>
  Claim C6, on the example project, for \<^verbatim>\<open>scene_2.blend\<close> and its entry.
\<close>

theorem move_then_restore_witness:
  "dir_lookup (history demo_project) ''scene_2.blend'' = Some \<lparr>content = ''BB'', mtime = 200\<rparr>
   \<and> index_ok demo_project
   \<and> 3 < length (versions demo_project)
   \<and> field ''file'' (versions demo_project ! 3) = JStr ''scene_2.blend''
   \<and> field ''status'' (versions demo_project ! 3) = JStr ''active''
   \<and> fst (restore_deleted ''2024-05-02 09:00:00'' 4096
             (snd (move_to_deleted demo_project ''scene_2.blend'')) ''scene_2.blend'') = Inr True
   \<and> dir_lookup (history (snd (restore_deleted ''2024-05-02 09:00:00'' 4096
             (snd (move_to_deleted demo_project ''scene_2.blend'')) ''scene_2.blend'')))
        ''scene_2.blend'' = Some \<lparr>content = ''BB'', mtime = 200\<rparr>
   \<and> field ''status'' (versions (snd (restore_deleted ''2024-05-02 09:00:00'' 4096
             (snd (move_to_deleted demo_project ''scene_2.blend'')) ''scene_2.blend'')) ! 3)
        = JStr ''active''"
proof -
  have h: "dir_lookup (history demo_project) ''scene_2.blend''
             = Some \<lparr>content = ''BB'', mtime = 200\<rparr>"
    by (simp add: dir_lookup_def demo_project_def)
  have i: "3 < length (versions demo_project)" by (simp add: versions_demo)
  have fi: "field ''file'' (versions demo_project ! 3) = JStr ''scene_2.blend''"
    by (simp add: versions_demo)
  have si: "field ''status'' (versions demo_project ! 3) = JStr ''active''"
    by (simp add: versions_demo)
  from move_then_restore [OF h index_ok_demo i fi si, of "''2024-05-02 09:00:00''" 4096] h i fi si
    index_ok_demo
  show ?thesis by blast
qed

subsection \<open>Project directories of literal path\<close>



lemma project_at_Some: "map_of w pd = Some s \<Longrightarrow> project_at w pd = s"
  by (simp add: project_at_def)




lemma project_update_deleted: "s\<lparr>deleted := d\<rparr>\<lparr>deleted := d'\<rparr> = s\<lparr>deleted := d'\<rparr>"
  by simp

subsection \<open>Purging\<close>




lemma purge_entry_Nil [simp]: "purge_entry [] v = v"
  by (simp add: purge_entry_def)




















subsection \<open>The status purged\<close>
































subsection \<open>Compressing old versions\<close>













lemma compress_entries_length [simp]: "length (compress_entries ns vs) = length vs"
  unfolding compress_entries_def by (induction ns arbitrary: vs) simp_all





lemma newest_first_None [simp]: "newest_first None = []" "glob_blend None = []"
  by (simp_all add: newest_first_def blend_files_def glob_blend_def)

















subsection \<open>A registration that overlaps a purge\<close>

text \<open>
  Claim C9 does not hold of the code. On the example project the purge of
  \<^verbatim>\<open>scene_0.blend\<close> reads the index, the main thread registers \<^verbatim>\<open>stray.blend\<close> (the call
  returns the new entry and has written the index), and the purge writes back the document
  it read: the final index has the five entries the purge read, the first one marked
  \<^verbatim>\<open>purged\<close>, and no entry for \<^verbatim>\<open>stray.blend\<close>. When one call follows the other, in either
  order, the index has both the purge and the new entry.
\<close>

theorem registration_lost_in_purge:
  "fst (purge_with_registration_between shot_match 1000000 [(''scene'', demo_project)]
          ''scene'' 1 (InHistory ''stray.blend'') ''auto'' False ''2024-05-02 09:30:00'') = Inr [''scene_0.blend'']
   \<and> fst (snd (purge_with_registration_between shot_match 1000000 [(''scene'', demo_project)]
          ''scene'' 1 (InHistory ''stray.blend'') ''auto'' False ''2024-05-02 09:30:00''))
        = Inr (new_entry ''stray.blend'' ''2024-05-02 09:30:00'' (Some 1) ''auto'' False)
   \<and> versions (project_at (snd (snd (purge_with_registration_between shot_match 1000000 [(''scene'', demo_project)]
          ''scene'' 1 (InHistory ''stray.blend'') ''auto'' False ''2024-05-02 09:30:00''))) ''scene'')
        = map (purge_entry [''scene_0.blend'']) (versions demo_project)
   \<and> JStr ''stray.blend'' \<notin> field ''file'' ` set (versions (project_at (snd (snd (purge_with_registration_between shot_match 1000000 [(''scene'', demo_project)]
          ''scene'' 1 (InHistory ''stray.blend'') ''auto'' False ''2024-05-02 09:30:00''))) ''scene''))
   \<and> versions (project_at (snd (register_at
          (snd (purge_deleted_older_than shot_match 1000000 [(''scene'', demo_project)] ''scene'' 1))
          ''scene'' (InHistory ''stray.blend'') ''auto'' False ''2024-05-02 09:30:00'')) ''scene'')
        = map (purge_entry [''scene_0.blend'']) (versions demo_project)
            @ [new_entry ''stray.blend'' ''2024-05-02 09:30:00'' (Some 1) ''auto'' False]
   \<and> versions (project_at (snd (purge_deleted_older_than shot_match 1000000
          (snd (register_at [(''scene'', demo_project)] ''scene'' (InHistory ''stray.blend'')
                  ''auto'' False ''2024-05-02 09:30:00'')) ''scene'' 1)) ''scene'')
        = map (purge_entry [''scene_0.blend'']) (versions demo_project)
            @ [new_entry ''stray.blend'' ''2024-05-02 09:30:00'' (Some 1) ''auto'' False]"
proof -
  have a: "fst (purge_with_registration_between shot_match 1000000 [(''scene'', demo_project)]
          ''scene'' 1 (InHistory ''stray.blend'') ''auto'' False ''2024-05-02 09:30:00'') = Inr [''scene_0.blend'']"
    by code_simp
  have b: "fst (snd (purge_with_registration_between shot_match 1000000 [(''scene'', demo_project)]
          ''scene'' 1 (InHistory ''stray.blend'') ''auto'' False ''2024-05-02 09:30:00''))
        = Inr (new_entry ''stray.blend'' ''2024-05-02 09:30:00'' (Some 1) ''auto'' False)"
    by code_simp
  have c: "versions (project_at (snd (snd (purge_with_registration_between shot_match 1000000 [(''scene'', demo_project)]
          ''scene'' 1 (InHistory ''stray.blend'') ''auto'' False ''2024-05-02 09:30:00''))) ''scene'')
        = map (purge_entry [''scene_0.blend'']) (versions demo_project)"
    by code_simp
  have d: "JStr ''stray.blend'' \<notin> field ''file'' ` set (versions (project_at (snd (snd (purge_with_registration_between shot_match 1000000 [(''scene'', demo_project)]
          ''scene'' 1 (InHistory ''stray.blend'') ''auto'' False ''2024-05-02 09:30:00''))) ''scene''))"
    by code_simp
  have e: "versions (project_at (snd (register_at
          (snd (purge_deleted_older_than shot_match 1000000 [(''scene'', demo_project)] ''scene'' 1))
          ''scene'' (InHistory ''stray.blend'') ''auto'' False ''2024-05-02 09:30:00'')) ''scene'')
        = map (purge_entry [''scene_0.blend'']) (versions demo_project)
            @ [new_entry ''stray.blend'' ''2024-05-02 09:30:00'' (Some 1) ''auto'' False]"
    by code_simp
  have f: "versions (project_at (snd (purge_deleted_older_than shot_match 1000000
          (snd (register_at [(''scene'', demo_project)] ''scene'' (InHistory ''stray.blend'')
                  ''auto'' False ''2024-05-02 09:30:00'')) ''scene'' 1)) ''scene'')
        = map (purge_entry [''scene_0.blend'']) (versions demo_project)
            @ [new_entry ''stray.blend'' ''2024-05-02 09:30:00'' (Some 1) ''auto'' False]"
    by code_simp
  show ?thesis using a b c d e f by (intro conjI)
qed

end
